theory Spec2Isabelle
  imports Main
begin

section \<open>Python strings and integers used by the startup code\<close>

text \<open>
  A Python \<open>str\<close> is modelled as a HOL \<open>string\<close>; a \<open>char\<close> stands for one code point
  below 256, which covers every literal of the three source files. The library functions
  the code calls (\<open>str.strip\<close>, \<open>str.split\<close>, \<open>str.join\<close>, \<open>int\<close>, the decimal
  formatting of an \<open>int\<close> in an f-string) are written out for that range.
\<close>

text \<open>
  \<open>str.strip()\<close> without argument removes the code points for which \<open>str.isspace\<close>
  holds: 9 to 13, 28 to 32, 133 and 160.
\<close>

definition py_isspace :: "char \<Rightarrow> bool" where
  "py_isspace c =
     (let n = (of_char c :: nat)
      in (9 \<le> n \<and> n \<le> 13) \<or> (28 \<le> n \<and> n \<le> 32) \<or> n = 133 \<or> n = 160)"

definition strip :: "string \<Rightarrow> string" where
  "strip s = rev (dropWhile py_isspace (rev (dropWhile py_isspace s)))"

text \<open>\<open>s.split(sep)\<close> for a one-character separator: \<open>''''.split('','')\<close> is \<open>['''']\<close>.\<close>

fun py_split :: "char \<Rightarrow> string \<Rightarrow> string list" where
  "py_split sep [] = [[]]"
| "py_split sep (c # cs) =
     (if c = sep then [] # py_split sep cs
      else (case py_split sep cs of
              [] \<Rightarrow> [[c]]
            | w # ws \<Rightarrow> (c # w) # ws))"

text \<open>\<open>sep.join(xs)\<close>.\<close>

fun py_join :: "string \<Rightarrow> string list \<Rightarrow> string" where
  "py_join sep [] = []"
| "py_join sep [x] = x"
| "py_join sep (x # y # ys) = x @ sep @ py_join sep (y # ys)"

datatype py_error = ValueError

text \<open>
  \<open>int(s)\<close> in base 10. The interpreter skips leading and trailing white space (here the
  code points 9 to 13, 32, 133 and 160: the separators 28 to 31 are white space for
  \<open>strip\<close> but not for \<open>int\<close>), takes one optional sign, then digits with single
  underscores between them, and raises \<open>ValueError\<close> on anything else and on more
  than \<open>int_max_str_digits\<close> digits (4300 unless the interpreter is configured otherwise).
\<close>

definition int_isspace :: "char \<Rightarrow> bool" where
  "int_isspace c =
     (let n = (of_char c :: nat)
      in (9 \<le> n \<and> n \<le> 13) \<or> n = 32 \<or> n = 133 \<or> n = 160)"

definition digit_val :: "char \<Rightarrow> nat option" where
  "digit_val c =
     (let n = (of_char c :: nat)
      in if 48 \<le> n \<and> n \<le> 57 then Some (n - 48) else None)"

fun parse_digits :: "nat \<Rightarrow> string \<Rightarrow> nat option" where
  "parse_digits acc [] = Some acc"
| "parse_digits acc [c] =
     (case digit_val c of None \<Rightarrow> None | Some v \<Rightarrow> Some (10 * acc + v))"
| "parse_digits acc (c # d # ds) =
     (if c = CHR ''_'' then
        (case digit_val d of
           None \<Rightarrow> None
         | Some v \<Rightarrow> parse_digits (10 * acc + v) ds)
      else
        (case digit_val c of
           None \<Rightarrow> None
         | Some v \<Rightarrow> parse_digits (10 * acc + v) (d # ds)))"

definition int_max_str_digits :: nat where
  "int_max_str_digits = 4300"

definition py_int :: "string \<Rightarrow> py_error + int" where
  "py_int s =
     (let t = rev (dropWhile int_isspace (rev (dropWhile int_isspace s)));
          neg = (case t of [] \<Rightarrow> False | c # _ \<Rightarrow> c = CHR ''-'');
          body = (case t of
                    [] \<Rightarrow> []
                  | c # cs \<Rightarrow> if c = CHR ''-'' \<or> c = CHR ''+'' then cs else t)
      in case body of
           [] \<Rightarrow> Inl ValueError
         | c # cs \<Rightarrow>
             (case digit_val c of
                None \<Rightarrow> Inl ValueError
              | Some v \<Rightarrow>
                  (case parse_digits v cs of
                     None \<Rightarrow> Inl ValueError
                   | Some n \<Rightarrow>
                       if int_max_str_digits < length (filter (\<lambda>x. x \<noteq> CHR ''_'') body)
                       then Inl ValueError
                       else Inr (if neg then - int n else int n))))"

text \<open>The decimal text of an \<open>int\<close>, as \<open>f"{n}"\<close> and \<open>str(n)\<close> give it.\<close>

definition digit_char :: "nat \<Rightarrow> char" where
  "digit_char d = char_of (48 + d)"

function str_nat :: "nat \<Rightarrow> string" where
  "str_nat n = (if n < 10 then [digit_char n] else str_nat (n div 10) @ [digit_char (n mod 10)])"
  by pat_completeness auto
termination
  by (relation "measure id") auto

declare str_nat.simps [simp del]

definition str_int :: "int \<Rightarrow> string" where
  "str_int i = (if i < 0 then CHR ''-'' # str_nat (nat (- i)) else str_nat (nat i))"

section \<open>The process environment\<close>

text \<open>
  \<open>os.environ\<close> is a map from names to values. \<open>os.getenv(k)\<close> is the lookup,
  \<open>os.getenv(k, d)\<close> replaces an absent variable (not an empty one) by \<open>d\<close>, and the
  truth value of an optional string in \<open>if os.getenv(k):\<close> is that of \<open>truthy\<close>.
\<close>

type_synonym environ = "string \<rightharpoonup> string"

definition getenv :: "environ \<Rightarrow> string \<Rightarrow> string option" where
  "getenv env k = env k"

definition getenv_default :: "environ \<Rightarrow> string \<Rightarrow> string \<Rightarrow> string" where
  "getenv_default env k d = (case env k of None \<Rightarrow> d | Some v \<Rightarrow> v)"

fun truthy :: "string option \<Rightarrow> bool" where
  "truthy None = False"
| "truthy (Some v) = (v \<noteq> [])"

section \<open>universal\_start.py: platform detection and environment setup\<close>

definition detect_platform :: "environ \<Rightarrow> string" where
  "detect_platform env =
     (if truthy (getenv env ''RAILWAY_ENVIRONMENT'') then ''railway''
      else if truthy (getenv env ''RENDER'') then ''render''
      else ''local'')"

text \<open>
  The loop \<open>for key, value in vars.items(): if value: os.environ[key] = value\<close> over
  the dictionary of inspected variables, in insertion order.
\<close>

fun copy_vars :: "(string \<times> string option) list \<Rightarrow> environ \<Rightarrow> environ" where
  "copy_vars [] env = env"
| "copy_vars ((key, val) # kvs) env =
     copy_vars kvs
       (case val of
          None \<Rightarrow> env
        | Some v \<Rightarrow> if v \<noteq> [] then env(key \<mapsto> v) else env)"

definition setup_railway_environment :: "environ \<Rightarrow> environ" where
  "setup_railway_environment env =
     (let railway_environment = getenv_default env ''RAILWAY_ENVIRONMENT'' ''development'';
          railway_vars =
            [(''PORT'', Some (getenv_default env ''PORT'' ''8000'')),
             (''RAILWAY_ENVIRONMENT'', Some railway_environment),
             (''RAILWAY_PROJECT_ID'', getenv env ''RAILWAY_PROJECT_ID''),
             (''RAILWAY_SERVICE_ID'', getenv env ''RAILWAY_SERVICE_ID''),
             (''RAILWAY_DEPLOYMENT_ID'', getenv env ''RAILWAY_DEPLOYMENT_ID'')];
          env1 =
            (if railway_environment = ''production'' then
               env(''ENVIRONMENT'' \<mapsto> ''production'', ''DEBUG'' \<mapsto> ''false'',
                   ''LOG_LEVEL'' \<mapsto> ''INFO'')
             else if railway_environment = ''staging'' then
               env(''ENVIRONMENT'' \<mapsto> ''staging'', ''DEBUG'' \<mapsto> ''false'',
                   ''LOG_LEVEL'' \<mapsto> ''INFO'')
             else
               env(''ENVIRONMENT'' \<mapsto> ''development'', ''DEBUG'' \<mapsto> ''true'',
                   ''LOG_LEVEL'' \<mapsto> ''DEBUG''))
      in copy_vars railway_vars env1)"

text \<open>
  \<open>setup_render_environment\<close> has the same text in universal\_start.py and in
  render\_start.py; both scripts use this definition.
\<close>

definition setup_render_environment :: "environ \<Rightarrow> environ" where
  "setup_render_environment env =
     (let render = getenv_default env ''RENDER'' ''false'';
          render_vars =
            [(''PORT'', Some (getenv_default env ''PORT'' ''8000'')),
             (''RENDER'', Some render),
             (''RENDER_EXTERNAL_URL'', getenv env ''RENDER_EXTERNAL_URL''),
             (''RENDER_EXTERNAL_HOSTNAME'', getenv env ''RENDER_EXTERNAL_HOSTNAME'')];
          env1 =
            (if render = ''true'' then
               env(''ENVIRONMENT'' \<mapsto> ''production'', ''DEBUG'' \<mapsto> ''false'',
                   ''LOG_LEVEL'' \<mapsto> ''INFO'')
             else env)
      in copy_vars render_vars env1)"

definition setup_local_environment :: "environ \<Rightarrow> environ" where
  "setup_local_environment env =
     (let env1 = (if \<not> truthy (getenv env ''ENVIRONMENT'')
                  then env(''ENVIRONMENT'' \<mapsto> ''development'') else env);
          env2 = (if \<not> truthy (getenv env1 ''DEBUG'')
                  then env1(''DEBUG'' \<mapsto> ''true'') else env1);
          env3 = (if \<not> truthy (getenv env2 ''LOG_LEVEL'')
                  then env2(''LOG_LEVEL'' \<mapsto> ''DEBUG'') else env2)
      in env3)"

definition setup_environment :: "environ \<Rightarrow> environ" where
  "setup_environment env =
     (let platform = detect_platform env
      in if platform = ''railway'' then setup_railway_environment env
         else if platform = ''render'' then setup_render_environment env
         else setup_local_environment env)"

section \<open>The two startup scripts\<close>

text \<open>
  What the scripts print is kept as a list of events, one for each diagnostic line:
  \<open>MissingVars xs\<close> is the line "Missing required environment variables:" followed by
  \<open>xs\<close> joined with \<open>'', ''\<close>; \<open>PleaseSet w\<close> is "Please set these in your" followed by
  \<open>w\<close>; \<open>StartupFailed\<close> is "Startup failed due to missing environment variables";
  \<open>InvalidPort s\<close> is the warning "Invalid PORT value: s, using default 8000".
  The banners that only report progress are left out.
\<close>

datatype event =
    MissingVars "string list"
  | PleaseSet string
  | StartupFailed
  | InvalidPort string

text \<open>
  A run ends in \<open>sys.exit(n)\<close> or reaches the call of \<open>uvicorn.run\<close> with the
  resolved port; the server itself is outside the three files.
\<close>

datatype outcome = Exit int | Launch int

record run =
  outcome :: outcome
  printed :: "event list"
  environ :: environ

definition check_requirements :: "environ \<Rightarrow> bool \<times> event list" where
  "check_requirements env =
     (let platform = detect_platform env;
          required_vars =
            (if platform = ''local'' then [''JWT_SECRET'']
             else [''DATABASE_URL'', ''JWT_SECRET'']);
          missing_vars = filter (\<lambda>var. \<not> truthy (getenv env var)) required_vars
      in if missing_vars \<noteq> [] then
           (False,
            [MissingVars missing_vars,
             PleaseSet (if platform = ''railway'' then ''Railway dashboard''
                        else if platform = ''render'' then ''Render dashboard''
                        else ''.env file'')])
         else (True, []))"

text \<open>\<open>main\<close> of universal\_start.py.\<close>

definition universal_main :: "environ \<Rightarrow> run" where
  "universal_main env0 =
     (let env = setup_environment env0;
          (ok, msgs) = check_requirements env
      in if \<not> ok then
           \<lparr>outcome = Exit 1, printed = msgs @ [StartupFailed], environ = env\<rparr>
         else
           (let port_str = getenv_default env ''PORT'' ''8000'';
                port_str = (if port_str = ''$PORT'' then ''8000'' else port_str)
            in case py_int port_str of
                 Inr port \<Rightarrow>
                   \<lparr>outcome = Launch port, printed = msgs, environ = env\<rparr>
               | Inl ValueError \<Rightarrow>
                   \<lparr>outcome = Launch 8000, printed = msgs @ [InvalidPort port_str],
                    environ = env\<rparr>))"

text \<open>\<open>check_render_requirements\<close> and \<open>main\<close> of render\_start.py.\<close>

definition check_render_requirements :: "environ \<Rightarrow> bool \<times> event list" where
  "check_render_requirements env =
     (let required_vars = [''DATABASE_URL'', ''JWT_SECRET''];
          missing_vars = filter (\<lambda>var. \<not> truthy (getenv env var)) required_vars
      in if missing_vars \<noteq> [] then
           (False, [MissingVars missing_vars, PleaseSet ''Render dashboard''])
         else (True, []))"

definition render_main :: "environ \<Rightarrow> run" where
  "render_main env0 =
     (let env = setup_render_environment env0;
          (ok, msgs) = check_render_requirements env
      in if \<not> ok then
           \<lparr>outcome = Exit 1, printed = msgs @ [StartupFailed], environ = env\<rparr>
         else
           (let port_str = getenv_default env ''PORT'' ''8000''
            in case py_int port_str of
                 Inr port \<Rightarrow>
                   \<lparr>outcome = Launch port, printed = msgs, environ = env\<rparr>
               | Inl ValueError \<Rightarrow>
                   \<lparr>outcome = Launch 8000, printed = msgs @ [InvalidPort port_str],
                    environ = env\<rparr>))"

section \<open>app/config.py: the settings object\<close>

text \<open>
  The fields of \<open>Settings\<close> that \<open>__init__\<close>, the accessors and the module-level
  overrides read or write. A list-valued field holds a delimited string when pydantic
  fills it and a list once the module has assigned one, hence \<open>str_or_list\<close>.
\<close>

datatype str_or_list = Str string | Lst "string list"

record Settings =
  ENVIRONMENT :: string
  DEBUG :: bool
  PORT :: int
  ALLOWED_ORIGINS :: str_or_list
  ALLOWED_HOSTS :: str_or_list
  DATABASE_URL :: "string option"
  DATABASE_HOST :: string
  DATABASE_PORT :: int
  DATABASE_NAME :: string
  DATABASE_USER :: string
  DATABASE_PASSWORD :: string
  REDIS_URL :: "string option"
  REDIS_HOST :: string
  REDIS_PORT :: int
  REDIS_DB :: int
  ALLOWED_FILE_TYPES :: str_or_list

text \<open>The defaults the class body declares for these fields.\<close>

definition default_settings :: Settings where
  "default_settings =
     \<lparr>ENVIRONMENT = ''development'',
      DEBUG = True,
      PORT = 8000,
      ALLOWED_ORIGINS = Str
        ''http://localhost:3000,http://localhost:3001,https://afterlight.app,https://www.afterlight.app'',
      ALLOWED_HOSTS = Str ''localhost,127.0.0.1,afterlight.app,www.afterlight.app'',
      DATABASE_URL = None,
      DATABASE_HOST = ''localhost'',
      DATABASE_PORT = 5432,
      DATABASE_NAME = ''afterlight'',
      DATABASE_USER = ''postgres'',
      DATABASE_PASSWORD = [],
      REDIS_URL = None,
      REDIS_HOST = ''localhost'',
      REDIS_PORT = 6379,
      REDIS_DB = 0,
      ALLOWED_FILE_TYPES = Str ''image/jpeg,image/png,image/gif,image/webp''\<rparr>"

text \<open>
  The comprehension \<open>[x.strip() for x in S.split('','') if x.strip()]\<close> that the three
  accessors share.
\<close>

definition split_trimmed :: "string \<Rightarrow> string list" where
  "split_trimmed S = map strip (filter (\<lambda>x. strip x \<noteq> []) (py_split (CHR '','') S))"

definition allowed_origins_list :: "Settings \<Rightarrow> string list" where
  "allowed_origins_list self =
     (case ALLOWED_ORIGINS self of Str S \<Rightarrow> split_trimmed S | Lst xs \<Rightarrow> xs)"

definition allowed_hosts_list :: "Settings \<Rightarrow> string list" where
  "allowed_hosts_list self =
     (case ALLOWED_HOSTS self of Str S \<Rightarrow> split_trimmed S | Lst xs \<Rightarrow> xs)"

definition allowed_file_types_list :: "Settings \<Rightarrow> string list" where
  "allowed_file_types_list self =
     (case ALLOWED_FILE_TYPES self of Str S \<Rightarrow> split_trimmed S | Lst xs \<Rightarrow> xs)"

text \<open>
  \<open>Settings\<close> derives from the \<open>BaseSettings\<close> class of pydantic-settings, and
  \<open>__init__\<close> starts with \<open>super().__init__(**kwargs)\<close>. The module calls \<open>Settings()\<close>
  without arguments, so the base class fills every field from the environment variable
  of the same name (\<open>case_sensitive = True\<close>) or else from the class default, and
  validates it against the declared type: a \<open>str\<close> or \<open>Optional[str]\<close> field takes the
  variable as it is, also when it is empty; an \<open>int\<close> or \<open>bool\<close> field must parse, and
  one that does not makes the constructor raise \<open>ValidationError\<close>. The two text
  conversions of the library are the parameter \<open>pyd\<close>, since their grammar belongs to
  the installed version; the empty string is a valid \<open>int\<close> or \<open>bool\<close> in none. The
  model is of a working directory without a \<open>.env\<close> file, so that the environment is
  the only source besides the defaults.
\<close>

record validators =
  int_of_str :: "string \<Rightarrow> int option"
  bool_of_str :: "string \<Rightarrow> bool option"

datatype init_error = ValidationError | BodyError py_error

text \<open>The fields of the class body declared \<open>int\<close> and \<open>bool\<close>, in the order of the source.\<close>

definition int_fields :: "string list" where
  "int_fields =
     [''PORT'', ''JWT_EXPIRATION_MINUTES'', ''ACCESS_TOKEN_EXPIRE_MINUTES'', ''DATABASE_PORT'',
      ''REDIS_PORT'', ''REDIS_DB'', ''OPENAI_MAX_TOKENS'', ''MAX_FILE_SIZE'',
      ''RATE_LIMIT_WINDOW'', ''RATE_LIMIT_MAX_REQUESTS'', ''SMTP_PORT'']"

definition bool_fields :: "string list" where
  "bool_fields = [''DEBUG'', ''ENABLE_DEBUG_ROUTES'']"

definition int_valid :: "validators \<Rightarrow> environ \<Rightarrow> string \<Rightarrow> bool" where
  "int_valid pyd env k =
     (case env k of
        None \<Rightarrow> True
      | Some v \<Rightarrow> v \<noteq> [] \<and> int_of_str pyd v \<noteq> None)"

definition bool_valid :: "validators \<Rightarrow> environ \<Rightarrow> string \<Rightarrow> bool" where
  "bool_valid pyd env k =
     (case env k of
        None \<Rightarrow> True
      | Some v \<Rightarrow> v \<noteq> [] \<and> bool_of_str pyd v \<noteq> None)"

definition int_value :: "validators \<Rightarrow> environ \<Rightarrow> string \<Rightarrow> int \<Rightarrow> int" where
  "int_value pyd env k d =
     (case env k of
        None \<Rightarrow> d
      | Some v \<Rightarrow> (case int_of_str pyd v of None \<Rightarrow> d | Some n \<Rightarrow> n))"

definition bool_value :: "validators \<Rightarrow> environ \<Rightarrow> string \<Rightarrow> bool \<Rightarrow> bool" where
  "bool_value pyd env k d =
     (case env k of
        None \<Rightarrow> d
      | Some v \<Rightarrow> (case bool_of_str pyd v of None \<Rightarrow> d | Some b \<Rightarrow> b))"

text \<open>
  \<open>super().__init__()\<close>: every typed field is validated, also those the rest of the
  module never reads; the fields of the record are then filled.
\<close>

definition BaseSettings_init :: "validators \<Rightarrow> environ \<Rightarrow> init_error + Settings" where
  "BaseSettings_init pyd env =
     (if list_all (int_valid pyd env) int_fields \<and> list_all (bool_valid pyd env) bool_fields
      then
        Inr \<lparr>ENVIRONMENT = getenv_default env ''ENVIRONMENT'' (ENVIRONMENT default_settings),
             DEBUG = bool_value pyd env ''DEBUG'' (DEBUG default_settings),
             PORT = int_value pyd env ''PORT'' (PORT default_settings),
             ALLOWED_ORIGINS =
               (case env ''ALLOWED_ORIGINS'' of
                  None \<Rightarrow> ALLOWED_ORIGINS default_settings
                | Some v \<Rightarrow> Str v),
             ALLOWED_HOSTS =
               (case env ''ALLOWED_HOSTS'' of
                  None \<Rightarrow> ALLOWED_HOSTS default_settings
                | Some v \<Rightarrow> Str v),
             DATABASE_URL = getenv env ''DATABASE_URL'',
             DATABASE_HOST = getenv_default env ''DATABASE_HOST'' (DATABASE_HOST default_settings),
             DATABASE_PORT = int_value pyd env ''DATABASE_PORT'' (DATABASE_PORT default_settings),
             DATABASE_NAME = getenv_default env ''DATABASE_NAME'' (DATABASE_NAME default_settings),
             DATABASE_USER = getenv_default env ''DATABASE_USER'' (DATABASE_USER default_settings),
             DATABASE_PASSWORD =
               getenv_default env ''DATABASE_PASSWORD'' (DATABASE_PASSWORD default_settings),
             REDIS_URL = getenv env ''REDIS_URL'',
             REDIS_HOST = getenv_default env ''REDIS_HOST'' (REDIS_HOST default_settings),
             REDIS_PORT = int_value pyd env ''REDIS_PORT'' (REDIS_PORT default_settings),
             REDIS_DB = int_value pyd env ''REDIS_DB'' (REDIS_DB default_settings),
             ALLOWED_FILE_TYPES =
               (case env ''ALLOWED_FILE_TYPES'' of
                  None \<Rightarrow> ALLOWED_FILE_TYPES default_settings
                | Some v \<Rightarrow> Str v)\<rparr>
      else Inl ValidationError)"

text \<open>
  The statements of \<open>Settings.__init__\<close> after \<open>super().__init__(**kwargs)\<close> has
  returned the object \<open>base\<close>. They are written for every \<open>base\<close>, whatever the base
  class built it from. The only one that can raise is \<open>int(os.getenv('PORT'))\<close>.
\<close>

definition Settings_init_body :: "Settings \<Rightarrow> environ \<Rightarrow> py_error + Settings" where
  "Settings_init_body base env =
     (let s1 = (if truthy (getenv env ''RAILWAY_ENVIRONMENT'') then
                  (let e = getenv_default env ''RAILWAY_ENVIRONMENT'' ''development''
                   in base\<lparr>ENVIRONMENT := e, DEBUG := (e = ''development'')\<rparr>)
                else base);
          r2 = (case getenv env ''PORT'' of
                  None \<Rightarrow> Inr s1
                | Some p \<Rightarrow>
                    if p \<noteq> [] then
                      (case py_int p of
                         Inl err \<Rightarrow> Inl err
                       | Inr n \<Rightarrow> Inr (s1\<lparr>PORT := n\<rparr>))
                    else Inr s1)
      in case r2 of
           Inl err \<Rightarrow> Inl err
         | Inr s2 \<Rightarrow>
             (let s3 = (if \<not> truthy (DATABASE_URL s2) then
                          (if DATABASE_PASSWORD s2 \<noteq> [] then
                             s2\<lparr>DATABASE_URL := Some
                                  (''postgresql://'' @ DATABASE_USER s2 @ '':'' @
                                   DATABASE_PASSWORD s2 @ ''@'' @ DATABASE_HOST s2 @ '':'' @
                                   str_int (DATABASE_PORT s2) @ ''/'' @ DATABASE_NAME s2)\<rparr>
                           else
                             s2\<lparr>DATABASE_URL := Some
                                  (''postgresql://'' @ DATABASE_USER s2 @ ''@'' @
                                   DATABASE_HOST s2 @ '':'' @
                                   str_int (DATABASE_PORT s2) @ ''/'' @ DATABASE_NAME s2)\<rparr>)
                        else s2);
                  s4 = (if \<not> truthy (REDIS_URL s3) then
                          s3\<lparr>REDIS_URL := Some
                               (''redis://'' @ REDIS_HOST s3 @ '':'' @ str_int (REDIS_PORT s3) @
                                ''/'' @ str_int (REDIS_DB s3))\<rparr>
                        else s3)
              in Inr (s4\<lparr>DEBUG := (ENVIRONMENT s4 = ''development'')\<rparr>)))"

text \<open>
  \<open>Settings()\<close>: the base class first, then the body. An error of either is raised to
  the caller.
\<close>

definition Settings_init :: "validators \<Rightarrow> environ \<Rightarrow> init_error + Settings" where
  "Settings_init pyd env =
     (case BaseSettings_init pyd env of
        Inl err \<Rightarrow> Inl err
      | Inr base \<Rightarrow>
          (case Settings_init_body base env of
             Inl err \<Rightarrow> Inl (BodyError err)
           | Inr s \<Rightarrow> Inr s))"

text \<open>The environment-specific overrides that the module applies to the new object.\<close>

definition module_overrides :: "Settings \<Rightarrow> Settings" where
  "module_overrides s =
     (if ENVIRONMENT s = ''production'' then
        s\<lparr>DEBUG := False,
          ALLOWED_ORIGINS := Lst [''https://afterlight.app'', ''https://www.afterlight.app'']\<rparr>
      else if ENVIRONMENT s = ''staging'' then
        s\<lparr>ALLOWED_ORIGINS := Lst [''https://staging.afterlight.app'',
                                  ''https://staging-www.afterlight.app'']\<rparr>
      else s)"

text \<open>
  The module body: \<open>settings = Settings()\<close> followed by the overrides. The import
  fails when the constructor raises.
\<close>

definition settings :: "validators \<Rightarrow> environ \<Rightarrow> init_error + Settings" where
  "settings pyd env =
     (case Settings_init pyd env of
        Inl err \<Rightarrow> Inl err
      | Inr s \<Rightarrow> Inr (module_overrides s))"

section \<open>What the environment setup leaves alone\<close>

lemma copy_vars_other:
  "k \<notin> fst ` set kvs \<Longrightarrow> copy_vars kvs env k = env k"
  by (induction kvs arbitrary: env) (auto split: option.splits)

lemma copy_vars_apply:
  "distinct (map fst kvs) \<Longrightarrow>
   copy_vars kvs env k =
     (case map_of kvs k of
        Some (Some v) \<Rightarrow> if v \<noteq> [] then Some v else env k
      | _ \<Rightarrow> env k)"
proof (induction kvs arbitrary: env)
  case Nil
  then show ?case by simp
next
  case (Cons kv kvs)
  obtain key val where kv: "kv = (key, val)" by (cases kv)
  from Cons.prems kv have d: "distinct (map fst kvs)" and nk: "key \<notin> fst ` set kvs"
    by auto
  show ?case
  proof (cases "k = key")
    case True
    with nk have "map_of kvs k = None" by (simp add: map_of_eq_None_iff)
    with True kv Cons.IH [OF d] show ?thesis
      by (simp split: option.splits)
  next
    case False
    with kv Cons.IH [OF d] show ?thesis
      by (simp split: option.splits)
  qed
qed

lemma setup_railway_signal:
  "setup_railway_environment env ''RAILWAY_ENVIRONMENT'' =
     (if truthy (env ''RAILWAY_ENVIRONMENT'') then env ''RAILWAY_ENVIRONMENT''
      else if env ''RAILWAY_ENVIRONMENT'' = None then Some ''development'' else Some [])"
  unfolding setup_railway_environment_def Let_def
  by (subst copy_vars_apply) (auto simp: getenv_default_def split: option.splits)

lemma setup_render_signal:
  "truthy (env ''RENDER'') \<Longrightarrow> setup_render_environment env ''RENDER'' = env ''RENDER''"
  unfolding setup_render_environment_def Let_def
  by (subst copy_vars_apply, simp, cases "env ''RENDER''")
     (auto simp: getenv_default_def split: option.splits)

lemma setup_railway_port:
  "getenv_default (setup_railway_environment env) ''PORT'' ''8000'' =
   getenv_default env ''PORT'' ''8000''"
  unfolding setup_railway_environment_def Let_def getenv_default_def [of _ "''PORT''"]
  by (subst copy_vars_apply) (auto simp: getenv_default_def split: option.splits)

lemma setup_render_port:
  "getenv_default (setup_render_environment env) ''PORT'' ''8000'' =
   getenv_default env ''PORT'' ''8000''"
  unfolding setup_render_environment_def Let_def getenv_default_def [of _ "''PORT''"]
  by (subst copy_vars_apply) (auto simp: getenv_default_def split: option.splits)

lemma setup_local_keeps:
  "k \<notin> {''ENVIRONMENT'', ''DEBUG'', ''LOG_LEVEL''} \<Longrightarrow>
   setup_local_environment env k = env k"
  by (simp add: setup_local_environment_def Let_def getenv_def)

lemma setup_railway_keeps:
  "k \<notin> {''ENVIRONMENT'', ''DEBUG'', ''LOG_LEVEL'', ''PORT'', ''RAILWAY_ENVIRONMENT'',
         ''RAILWAY_PROJECT_ID'', ''RAILWAY_SERVICE_ID'', ''RAILWAY_DEPLOYMENT_ID''} \<Longrightarrow>
   setup_railway_environment env k = env k"
  unfolding setup_railway_environment_def Let_def
  by (subst copy_vars_other) auto

lemma setup_render_keeps:
  "k \<notin> {''ENVIRONMENT'', ''DEBUG'', ''LOG_LEVEL'', ''PORT'', ''RENDER'',
         ''RENDER_EXTERNAL_URL'', ''RENDER_EXTERNAL_HOSTNAME''} \<Longrightarrow>
   setup_render_environment env k = env k"
  unfolding setup_render_environment_def Let_def
  by (subst copy_vars_other) auto

lemma setup_environment_keeps:
  "k \<in> {''RAILWAY_ENVIRONMENT'', ''RENDER'', ''DATABASE_URL'', ''JWT_SECRET''} \<Longrightarrow>
   setup_environment env k = env k"
  by (auto simp: setup_environment_def detect_platform_def getenv_def Let_def
      setup_railway_signal setup_render_signal setup_railway_keeps setup_render_keeps
      setup_local_keeps)

lemma detect_platform_setup:
  "detect_platform (setup_environment env) = detect_platform env"
  by (simp add: detect_platform_def getenv_def setup_environment_keeps)

lemma check_requirements_setup:
  "check_requirements (setup_environment env) = check_requirements env"
  by (simp add: check_requirements_def detect_platform_setup getenv_def
      setup_environment_keeps Let_def)

lemma check_render_requirements_setup:
  "check_render_requirements (setup_render_environment env) = check_render_requirements env"
  by (simp add: check_render_requirements_def getenv_def setup_render_keeps Let_def)

lemma setup_local_port:
  "getenv_default (setup_local_environment env) ''PORT'' ''8000'' =
   getenv_default env ''PORT'' ''8000''"
  by (simp add: getenv_default_def setup_local_keeps)

lemma setup_environment_port:
  "getenv_default (setup_environment env) ''PORT'' ''8000'' =
   getenv_default env ''PORT'' ''8000''"
  by (simp add: setup_environment_def Let_def setup_railway_port setup_render_port
      setup_local_port)

lemma py_int_8000: "py_int ''8000'' = Inr 8000"
  by (simp add: py_int_def int_isspace_def digit_val_def int_max_str_digits_def)

section \<open>Platform detection and normalisation\<close>

text \<open>
  C8: platform detection is a function of the environment alone, with a fixed priority.
  A signal counts as present when the variable is set to a non-empty value. If the
  Railway signal \<open>RAILWAY_ENVIRONMENT\<close> is present the result is \<open>railway\<close>, whatever
  \<open>RENDER\<close> holds; otherwise, if the Render signal \<open>RENDER\<close> is present, the result is
  \<open>render\<close>; otherwise it is \<open>local\<close>. The source function only reads
  \<open>os.environ\<close>, so the model returns the tag and no new environment.
\<close>

theorem detect_platform_priority:
  "(truthy (getenv env ''RAILWAY_ENVIRONMENT'') \<longrightarrow> detect_platform env = ''railway'') \<and>
   (\<not> truthy (getenv env ''RAILWAY_ENVIRONMENT'') \<and> truthy (getenv env ''RENDER'') \<longrightarrow>
      detect_platform env = ''render'') \<and>
   (\<not> truthy (getenv env ''RAILWAY_ENVIRONMENT'') \<and> \<not> truthy (getenv env ''RENDER'') \<longrightarrow>
      detect_platform env = ''local'')"
  by (simp add: detect_platform_def)

theorem detect_platform_priority_witness:
  "detect_platform (Map.empty(''RAILWAY_ENVIRONMENT'' \<mapsto> ''staging'', ''RENDER'' \<mapsto> ''true''))
     = ''railway'' \<and>
   detect_platform (Map.empty(''RENDER'' \<mapsto> ''true'')) = ''render'' \<and>
   detect_platform (Map.empty(''RAILWAY_ENVIRONMENT'' \<mapsto> [])) = ''local''"
  using detect_platform_priority
          [of "Map.empty(''RAILWAY_ENVIRONMENT'' \<mapsto> ''staging'', ''RENDER'' \<mapsto> ''true'')"]
        detect_platform_priority [of "Map.empty(''RENDER'' \<mapsto> ''true'')"]
        detect_platform_priority [of "Map.empty(''RAILWAY_ENVIRONMENT'' \<mapsto> [])"]
  by (simp add: getenv_def)

text \<open>
  C7: when \<open>RAILWAY_ENVIRONMENT\<close> is \<open>production\<close>, the platform is Railway, the
  normaliser runs the Railway setup, and afterwards \<open>ENVIRONMENT\<close> is \<open>production\<close>,
  \<open>DEBUG\<close> is \<open>false\<close> and \<open>LOG_LEVEL\<close> is \<open>INFO\<close>, whatever the three variables
  (or any other variable) held before.
\<close>

theorem railway_production_normalised:
  assumes "getenv env ''RAILWAY_ENVIRONMENT'' = Some ''production''"
  shows "detect_platform env = ''railway'' \<and>
         setup_environment env = setup_railway_environment env \<and>
         getenv (setup_environment env) ''ENVIRONMENT'' = Some ''production'' \<and>
         getenv (setup_environment env) ''DEBUG'' = Some ''false'' \<and>
         getenv (setup_environment env) ''LOG_LEVEL'' = Some ''INFO''"
proof -
  from assms have p: "detect_platform env = ''railway''"
    by (simp add: detect_platform_def)
  then have s: "setup_environment env = setup_railway_environment env"
    by (simp add: setup_environment_def)
  from assms have d: "getenv_default env ''RAILWAY_ENVIRONMENT'' ''development'' = ''production''"
    by (simp add: getenv_def getenv_default_def)
  have "setup_railway_environment env ''ENVIRONMENT'' = Some ''production''"
       "setup_railway_environment env ''DEBUG'' = Some ''false''"
       "setup_railway_environment env ''LOG_LEVEL'' = Some ''INFO''"
    unfolding setup_railway_environment_def Let_def d
    by (subst copy_vars_other; simp)+
  with p s show ?thesis by (simp add: getenv_def)
qed

theorem railway_production_normalised_witness:
  "getenv (setup_environment
     (Map.empty(''RAILWAY_ENVIRONMENT'' \<mapsto> ''production'', ''ENVIRONMENT'' \<mapsto> ''staging'',
                ''DEBUG'' \<mapsto> ''true'', ''LOG_LEVEL'' \<mapsto> ''DEBUG''))) ''ENVIRONMENT''
     = Some ''production'' \<and>
   getenv (setup_environment
     (Map.empty(''RAILWAY_ENVIRONMENT'' \<mapsto> ''production'', ''ENVIRONMENT'' \<mapsto> ''staging'',
                ''DEBUG'' \<mapsto> ''true'', ''LOG_LEVEL'' \<mapsto> ''DEBUG''))) ''DEBUG''
     = Some ''false'' \<and>
   getenv (setup_environment
     (Map.empty(''RAILWAY_ENVIRONMENT'' \<mapsto> ''production'', ''ENVIRONMENT'' \<mapsto> ''staging'',
                ''DEBUG'' \<mapsto> ''true'', ''LOG_LEVEL'' \<mapsto> ''DEBUG''))) ''LOG_LEVEL''
     = Some ''INFO''"
proof -
  have h: "getenv (Map.empty(''RAILWAY_ENVIRONMENT'' \<mapsto> ''production'',
             ''ENVIRONMENT'' \<mapsto> ''staging'', ''DEBUG'' \<mapsto> ''true'',
             ''LOG_LEVEL'' \<mapsto> ''DEBUG'')) ''RAILWAY_ENVIRONMENT'' = Some ''production''"
    by (simp add: getenv_def)
  from railway_production_normalised [OF h] show ?thesis by blast
qed

section \<open>The settings object after construction\<close>

text \<open>
  The body of \<open>__init__\<close> in one piece: it raises exactly when the port override
  does, and otherwise returns the base object with five fields reassigned.
\<close>

lemma Settings_init_body_unfold:
  "Settings_init_body base env =
     (case (case getenv env ''PORT'' of
              None \<Rightarrow> Inr (PORT base)
            | Some p \<Rightarrow> if p \<noteq> [] then py_int p else Inr (PORT base)) of
        Inl err \<Rightarrow> Inl err
      | Inr n \<Rightarrow>
          (let e = (if truthy (getenv env ''RAILWAY_ENVIRONMENT'')
                    then getenv_default env ''RAILWAY_ENVIRONMENT'' ''development''
                    else ENVIRONMENT base)
           in Inr (base\<lparr>ENVIRONMENT := e, DEBUG := (e = ''development''), PORT := n,
                DATABASE_URL :=
                  (if truthy (DATABASE_URL base) then DATABASE_URL base
                   else if DATABASE_PASSWORD base \<noteq> [] then
                     Some (''postgresql://'' @ DATABASE_USER base @ '':'' @
                           DATABASE_PASSWORD base @ ''@'' @ DATABASE_HOST base @ '':'' @
                           str_int (DATABASE_PORT base) @ ''/'' @ DATABASE_NAME base)
                   else
                     Some (''postgresql://'' @ DATABASE_USER base @ ''@'' @
                           DATABASE_HOST base @ '':'' @
                           str_int (DATABASE_PORT base) @ ''/'' @ DATABASE_NAME base)),
                REDIS_URL :=
                  (if truthy (REDIS_URL base) then REDIS_URL base
                   else Some (''redis://'' @ REDIS_HOST base @ '':'' @
                              str_int (REDIS_PORT base) @ ''/'' @ str_int (REDIS_DB base)))\<rparr>)))"
proof -
  show ?thesis
  proof (cases "truthy (getenv env ''RAILWAY_ENVIRONMENT'')")
    case rw: True
    show ?thesis
    proof (cases "truthy (DATABASE_URL base)")
      case db: True
      show ?thesis
      proof (cases "truthy (REDIS_URL base)")
        case True
        with rw db show ?thesis
          by (simp add: Settings_init_body_def Let_def split: option.split sum.split)
      next
        case False
        with rw db show ?thesis
          by (simp add: Settings_init_body_def Let_def split: option.split sum.split)
      qed
    next
      case db: False
      show ?thesis
      proof (cases "truthy (REDIS_URL base)")
        case True
        with rw db show ?thesis
          by (simp add: Settings_init_body_def Let_def split: option.split sum.split)
      next
        case False
        with rw db show ?thesis
          by (simp add: Settings_init_body_def Let_def split: option.split sum.split)
      qed
    qed
  next
    case rw: False
    show ?thesis
    proof (cases "truthy (DATABASE_URL base)")
      case db: True
      show ?thesis
      proof (cases "truthy (REDIS_URL base)")
        case True
        with rw db show ?thesis
          by (simp add: Settings_init_body_def Let_def split: option.split sum.split)
      next
        case False
        with rw db show ?thesis
          by (simp add: Settings_init_body_def Let_def split: option.split sum.split)
      qed
    next
      case db: False
      show ?thesis
      proof (cases "truthy (REDIS_URL base)")
        case True
        with rw db show ?thesis
          by (simp add: Settings_init_body_def Let_def split: option.split sum.split)
      next
        case False
        with rw db show ?thesis
          by (simp add: Settings_init_body_def Let_def split: option.split sum.split)
      qed
    qed
  qed
qed

lemma Settings_init_body_raises_iff:
  "(Settings_init_body base env = Inl err) =
   (\<exists>p. getenv env ''PORT'' = Some p \<and> p \<noteq> [] \<and> py_int p = Inl err)"
  by (auto simp: Settings_init_body_unfold Let_def split: option.splits sum.splits if_splits)

lemma Settings_init_body_fields:
  assumes "Settings_init_body base env = Inr s"
  shows "ENVIRONMENT s = (if truthy (getenv env ''RAILWAY_ENVIRONMENT'')
        then getenv_default env ''RAILWAY_ENVIRONMENT'' ''development''
        else ENVIRONMENT base)"
    and "DEBUG s = (ENVIRONMENT s = ''development'')"
    and "ALLOWED_ORIGINS s = ALLOWED_ORIGINS base"
    and "DATABASE_URL s = (if truthy (DATABASE_URL base) then DATABASE_URL base
      else if DATABASE_PASSWORD base \<noteq> [] then
        Some (''postgresql://'' @ DATABASE_USER base @ '':'' @ DATABASE_PASSWORD base @ ''@'' @
              DATABASE_HOST base @ '':'' @ str_int (DATABASE_PORT base) @ ''/'' @
              DATABASE_NAME base)
      else
        Some (''postgresql://'' @ DATABASE_USER base @ ''@'' @ DATABASE_HOST base @ '':'' @
              str_int (DATABASE_PORT base) @ ''/'' @ DATABASE_NAME base))"
    and "REDIS_URL s = (if truthy (REDIS_URL base) then REDIS_URL base
      else Some (''redis://'' @ REDIS_HOST base @ '':'' @
                 str_int (REDIS_PORT base) @ ''/'' @ str_int (REDIS_DB base)))"
  using assms unfolding Settings_init_body_unfold Let_def
  by (auto split: sum.splits)

text \<open>
  The body returns whenever the port override does not raise: when \<open>PORT\<close> is unset,
  empty, or a text that \<open>int\<close> accepts.
\<close>

lemma Settings_init_body_returns:
  assumes "getenv env ''PORT'' = None \<or> getenv env ''PORT'' = Some [] \<or>
           (\<exists>p n. getenv env ''PORT'' = Some p \<and> py_int p = Inr n)"
  shows "\<exists>s. Settings_init_body base env = Inr s"
proof (cases "Settings_init_body base env")
  case (Inl err)
  then obtain p where "getenv env ''PORT'' = Some p" "p \<noteq> []" "py_int p = Inl err"
    by (auto simp: Settings_init_body_raises_iff)
  with assms show ?thesis by auto
next
  case (Inr s)
  then show ?thesis by blast
qed

lemma module_overrides_fields:
  "ENVIRONMENT (module_overrides s) = ENVIRONMENT s"
  "DEBUG (module_overrides s) = (if ENVIRONMENT s = ''production'' then False else DEBUG s)"
  "ALLOWED_ORIGINS (module_overrides s) =
     (if ENVIRONMENT s = ''production'' then
        Lst [''https://afterlight.app'', ''https://www.afterlight.app'']
      else if ENVIRONMENT s = ''staging'' then
        Lst [''https://staging.afterlight.app'', ''https://staging-www.afterlight.app'']
      else ALLOWED_ORIGINS s)"
  "DATABASE_URL (module_overrides s) = DATABASE_URL s"
  "REDIS_URL (module_overrides s) = REDIS_URL s"
  by (simp_all add: module_overrides_def)

lemma settings_unfold:
  "settings pyd env =
     (case BaseSettings_init pyd env of
        Inl err \<Rightarrow> Inl err
      | Inr base \<Rightarrow>
          (case Settings_init_body base env of
             Inl err \<Rightarrow> Inl (BodyError err)
           | Inr s \<Rightarrow> Inr (module_overrides s)))"
  by (simp add: settings_def Settings_init_def split: sum.splits)

lemma BaseSettings_init_port:
  assumes "BaseSettings_init pyd env = Inr base"
  shows "getenv env ''PORT'' \<noteq> Some []"
proof -
  from assms have "int_valid pyd env ''PORT''"
    by (simp add: BaseSettings_init_def int_fields_def split: if_splits)
  then show ?thesis
    by (auto simp: int_valid_def getenv_def)
qed


text \<open>
  C3: once the module has built \<open>settings\<close> (construction followed by the
  environment-specific overrides), \<open>DEBUG\<close> is true exactly when the final
  \<open>ENVIRONMENT\<close> is \<open>development\<close>: for every object the base class can have built,
  whatever \<open>DEBUG\<close> it carried and whatever the Railway step assigned, and so for the
  object that \<open>Settings()\<close> builds from the environment. The object is built whenever
  the base class accepts the environment and the port override does not raise.
\<close>

theorem debug_follows_environment:
  "(Settings_init_body base env = Inr s0 \<longrightarrow>
      DEBUG (module_overrides s0) = (ENVIRONMENT (module_overrides s0) = ''development'')) \<and>
   (settings pyd env = Inr s \<longrightarrow> DEBUG s = (ENVIRONMENT s = ''development'')) \<and>
   (BaseSettings_init pyd env = Inr b \<and>
    (getenv env ''PORT'' = None \<or> (\<exists>p n. getenv env ''PORT'' = Some p \<and> py_int p = Inr n)) \<longrightarrow>
      (\<exists>s'. settings pyd env = Inr s' \<and> DEBUG s' = (ENVIRONMENT s' = ''development'')))"
proof -
  have a: "DEBUG (module_overrides t) = (ENVIRONMENT (module_overrides t) = ''development'')"
    if "Settings_init_body base' env = Inr t" for base' t
    using Settings_init_body_fields(2) [OF that]
    by (simp add: module_overrides_fields)
  have b: "DEBUG s = (ENVIRONMENT s = ''development'')" if "settings pyd env = Inr s"
    using that a by (auto simp: settings_unfold split: sum.splits)
  have c: "\<exists>s'. settings pyd env = Inr s' \<and> DEBUG s' = (ENVIRONMENT s' = ''development'')"
    if "BaseSettings_init pyd env = Inr b"
      and "getenv env ''PORT'' = None \<or> (\<exists>p n. getenv env ''PORT'' = Some p \<and> py_int p = Inr n)"
  proof -
    from that(2) obtain t where t: "Settings_init_body b env = Inr t"
      using Settings_init_body_returns [of env b] by blast
    with that(1) have "settings pyd env = Inr (module_overrides t)"
      by (simp add: settings_unfold)
    with a [OF t] show ?thesis by simp
  qed
  from a b c show ?thesis by blast
qed

theorem debug_follows_environment_witness:
  "\<exists>s'. settings \<lparr>int_of_str = (\<lambda>v. None), bool_of_str = (\<lambda>v. None)\<rparr>
          (Map.empty(''RAILWAY_ENVIRONMENT'' \<mapsto> ''production'',
                     ''ENVIRONMENT'' \<mapsto> ''development'')) = Inr s' \<and>
        DEBUG s' = (ENVIRONMENT s' = ''development'')"
proof -
  let ?pyd = "\<lparr>int_of_str = (\<lambda>v. None), bool_of_str = (\<lambda>v. None)\<rparr>"
  let ?env = "Map.empty(''RAILWAY_ENVIRONMENT'' \<mapsto> ''production'',
                       ''ENVIRONMENT'' \<mapsto> ''development'')"
  obtain b where h: "BaseSettings_init ?pyd ?env = Inr b"
    by (simp add: BaseSettings_init_def int_fields_def bool_fields_def int_valid_def
        bool_valid_def)
  have p: "getenv ?env ''PORT'' = None"
    by (simp add: getenv_def)
  from debug_follows_environment [where pyd = ?pyd and env = ?env and b = b] h p
  show ?thesis by blast
qed

text \<open>
  C4: whenever the port override does not raise, the body returns an object, and after
  the module's overrides its environment name is the Railway one if that signal is
  present and the one of the base object otherwise. If that name is \<open>production\<close> the
  accessor returns exactly the two production origins, if it is \<open>staging\<close> exactly the
  two staging origins, whatever \<open>ALLOWED_ORIGINS\<close> the base object held; for any other
  name the field is left as the base object held it. When the base object is the one
  the base class builds from the environment, that object is the module's \<open>settings\<close>.
\<close>

theorem origins_override:
  assumes "getenv env ''PORT'' = None \<or> getenv env ''PORT'' = Some [] \<or>
           (\<exists>p n. getenv env ''PORT'' = Some p \<and> py_int p = Inr n)"
  shows "\<exists>s0. Settings_init_body base env = Inr s0 \<and>
           ENVIRONMENT (module_overrides s0) =
             (if truthy (getenv env ''RAILWAY_ENVIRONMENT'')
              then getenv_default env ''RAILWAY_ENVIRONMENT'' ''development''
              else ENVIRONMENT base) \<and>
           (ENVIRONMENT (module_overrides s0) = ''production'' \<longrightarrow>
              allowed_origins_list (module_overrides s0) =
                [''https://afterlight.app'', ''https://www.afterlight.app'']) \<and>
           (ENVIRONMENT (module_overrides s0) = ''staging'' \<longrightarrow>
              allowed_origins_list (module_overrides s0) =
                [''https://staging.afterlight.app'', ''https://staging-www.afterlight.app'']) \<and>
           (ENVIRONMENT (module_overrides s0) \<noteq> ''production'' \<and>
            ENVIRONMENT (module_overrides s0) \<noteq> ''staging'' \<longrightarrow>
              ALLOWED_ORIGINS (module_overrides s0) = ALLOWED_ORIGINS base \<and>
              allowed_origins_list (module_overrides s0) = allowed_origins_list base) \<and>
           (BaseSettings_init pyd env = Inr base \<longrightarrow>
              settings pyd env = Inr (module_overrides s0))"
proof -
  from assms obtain s0 where s0: "Settings_init_body base env = Inr s0"
    using Settings_init_body_returns by blast
  note f = Settings_init_body_fields [OF s0]
  have e: "ENVIRONMENT (module_overrides s0) =
             (if truthy (getenv env ''RAILWAY_ENVIRONMENT'')
              then getenv_default env ''RAILWAY_ENVIRONMENT'' ''development''
              else ENVIRONMENT base)"
    using f(1) by (simp add: module_overrides_fields)
  have p: "ENVIRONMENT (module_overrides s0) = ''production'' \<longrightarrow>
              allowed_origins_list (module_overrides s0) =
                [''https://afterlight.app'', ''https://www.afterlight.app'']"
    by (simp add: allowed_origins_list_def module_overrides_fields)
  have g: "ENVIRONMENT (module_overrides s0) = ''staging'' \<longrightarrow>
              allowed_origins_list (module_overrides s0) =
                [''https://staging.afterlight.app'', ''https://staging-www.afterlight.app'']"
    by (simp add: allowed_origins_list_def module_overrides_fields)
  have o: "ENVIRONMENT (module_overrides s0) \<noteq> ''production'' \<and>
            ENVIRONMENT (module_overrides s0) \<noteq> ''staging'' \<longrightarrow>
              ALLOWED_ORIGINS (module_overrides s0) = ALLOWED_ORIGINS base \<and>
              allowed_origins_list (module_overrides s0) = allowed_origins_list base"
    using f(3) by (simp add: allowed_origins_list_def module_overrides_fields)
  have m: "BaseSettings_init pyd env = Inr base \<longrightarrow>
              settings pyd env = Inr (module_overrides s0)"
    using s0 by (simp add: settings_unfold)
  from s0 e p g o m show ?thesis by blast
qed

theorem origins_override_witness:
  "\<exists>s. settings \<lparr>int_of_str = (\<lambda>v. None), bool_of_str = (\<lambda>v. None)\<rparr>
         (Map.empty(''ENVIRONMENT'' \<mapsto> ''production'',
                    ''ALLOWED_ORIGINS'' \<mapsto> ''http://localhost:9999'')) = Inr s \<and>
       ENVIRONMENT s = ''production'' \<and>
       allowed_origins_list s = [''https://afterlight.app'', ''https://www.afterlight.app'']"
proof -
  let ?pyd = "\<lparr>int_of_str = (\<lambda>v. None), bool_of_str = (\<lambda>v. None)\<rparr>"
  let ?env = "Map.empty(''ENVIRONMENT'' \<mapsto> ''production'',
                       ''ALLOWED_ORIGINS'' \<mapsto> ''http://localhost:9999'')"
  obtain b where h: "BaseSettings_init ?pyd ?env = Inr b" and e: "ENVIRONMENT b = ''production''"
    by (simp add: BaseSettings_init_def int_fields_def bool_fields_def int_valid_def
        bool_valid_def getenv_default_def)
  have p: "getenv ?env ''PORT'' = None \<or> getenv ?env ''PORT'' = Some [] \<or>
           (\<exists>p n. getenv ?env ''PORT'' = Some p \<and> py_int p = Inr n)"
    by (simp add: getenv_def)
  have r: "\<not> truthy (getenv ?env ''RAILWAY_ENVIRONMENT'')"
    by (simp add: getenv_def)
  from origins_override [OF p, of b ?pyd] h e r
  show ?thesis by auto
qed

text \<open>
  C5: a database URL counts as supplied when the field holds a non-empty string.
  Whenever the port override does not raise, \<open>__init__\<close> returns an object: if no URL
  was supplied its \<open>DATABASE_URL\<close> is built from the user, password, host, port and name
  fields, and with an empty password it is \<open>postgresql://user@host:port/name\<close> and not
  the text with an empty credential, \<open>postgresql://user:@host:port/name\<close>, for the same
  fields; a supplied URL is left as it is. When the base object is the one the base
  class builds from the environment, this is the object of \<open>Settings()\<close>, and the
  module's \<open>settings\<close> has the same URL.
\<close>

theorem database_url_synthesis:
  assumes "getenv env ''PORT'' = None \<or> getenv env ''PORT'' = Some [] \<or>
           (\<exists>p n. getenv env ''PORT'' = Some p \<and> py_int p = Inr n)"
  shows "\<exists>s. Settings_init_body base env = Inr s \<and>
           (truthy (DATABASE_URL base) \<longrightarrow> DATABASE_URL s = DATABASE_URL base) \<and>
           (\<not> truthy (DATABASE_URL base) \<and> DATABASE_PASSWORD base = [] \<longrightarrow>
              DATABASE_URL s =
                Some (''postgresql://'' @ DATABASE_USER base @ ''@'' @ DATABASE_HOST base @
                      '':'' @ str_int (DATABASE_PORT base) @ ''/'' @ DATABASE_NAME base) \<and>
              DATABASE_URL s \<noteq>
                Some (''postgresql://'' @ DATABASE_USER base @ '':@'' @ DATABASE_HOST base @
                      '':'' @ str_int (DATABASE_PORT base) @ ''/'' @ DATABASE_NAME base)) \<and>
           (\<not> truthy (DATABASE_URL base) \<and> DATABASE_PASSWORD base \<noteq> [] \<longrightarrow>
              DATABASE_URL s =
                Some (''postgresql://'' @ DATABASE_USER base @ '':'' @ DATABASE_PASSWORD base @
                      ''@'' @ DATABASE_HOST base @ '':'' @ str_int (DATABASE_PORT base) @
                      ''/'' @ DATABASE_NAME base)) \<and>
           (BaseSettings_init pyd env = Inr base \<longrightarrow>
              Settings_init pyd env = Inr s \<and>
              settings pyd env = Inr (module_overrides s) \<and>
              DATABASE_URL (module_overrides s) = DATABASE_URL s)"
proof -
  from assms obtain s where s: "Settings_init_body base env = Inr s"
    using Settings_init_body_returns by blast
  note f = Settings_init_body_fields(4) [OF s]
  have a: "truthy (DATABASE_URL base) \<longrightarrow> DATABASE_URL s = DATABASE_URL base"
    using f by simp
  have b: "\<not> truthy (DATABASE_URL base) \<and> DATABASE_PASSWORD base = [] \<longrightarrow>
              DATABASE_URL s =
                Some (''postgresql://'' @ DATABASE_USER base @ ''@'' @ DATABASE_HOST base @
                      '':'' @ str_int (DATABASE_PORT base) @ ''/'' @ DATABASE_NAME base) \<and>
              DATABASE_URL s \<noteq>
                Some (''postgresql://'' @ DATABASE_USER base @ '':@'' @ DATABASE_HOST base @
                      '':'' @ str_int (DATABASE_PORT base) @ ''/'' @ DATABASE_NAME base)"
    using f by simp
  have c: "\<not> truthy (DATABASE_URL base) \<and> DATABASE_PASSWORD base \<noteq> [] \<longrightarrow>
              DATABASE_URL s =
                Some (''postgresql://'' @ DATABASE_USER base @ '':'' @ DATABASE_PASSWORD base @
                      ''@'' @ DATABASE_HOST base @ '':'' @ str_int (DATABASE_PORT base) @
                      ''/'' @ DATABASE_NAME base)"
    using f by simp
  have m: "BaseSettings_init pyd env = Inr base \<longrightarrow>
              Settings_init pyd env = Inr s \<and>
              settings pyd env = Inr (module_overrides s) \<and>
              DATABASE_URL (module_overrides s) = DATABASE_URL s"
    using s by (simp add: settings_unfold Settings_init_def module_overrides_fields)
  from s a b c m show ?thesis by blast
qed

theorem database_url_synthesis_witness:
  "\<exists>s. settings \<lparr>int_of_str = (\<lambda>v. None), bool_of_str = (\<lambda>v. None)\<rparr>
         (Map.empty(''DATABASE_USER'' \<mapsto> ''app'', ''DATABASE_HOST'' \<mapsto> ''db.internal'',
                    ''DATABASE_URL'' \<mapsto> [])) = Inr s \<and>
       DATABASE_URL s = Some ''postgresql://app@db.internal:5432/afterlight''"
proof -
  let ?pyd = "\<lparr>int_of_str = (\<lambda>v. None), bool_of_str = (\<lambda>v. None)\<rparr>"
  let ?env = "Map.empty(''DATABASE_USER'' \<mapsto> ''app'', ''DATABASE_HOST'' \<mapsto> ''db.internal'',
                       ''DATABASE_URL'' \<mapsto> [])"
  obtain b where h: "BaseSettings_init ?pyd ?env = Inr b"
    and f: "DATABASE_URL b = Some []" "DATABASE_PASSWORD b = []" "DATABASE_USER b = ''app''"
      "DATABASE_HOST b = ''db.internal''" "DATABASE_PORT b = 5432"
      "DATABASE_NAME b = ''afterlight''"
    by (simp add: BaseSettings_init_def int_fields_def bool_fields_def int_valid_def
        bool_valid_def getenv_def getenv_default_def int_value_def default_settings_def)
  have p: "getenv ?env ''PORT'' = None \<or> getenv ?env ''PORT'' = Some [] \<or>
           (\<exists>p n. getenv ?env ''PORT'' = Some p \<and> py_int p = Inr n)"
    by (simp add: getenv_def)
  have n: "str_int 5432 = ''5432''"
    by (simp add: str_int_def str_nat.simps digit_char_def char_of_def bit_Suc_0_iff)
  from database_url_synthesis [OF p, of b ?pyd] h f n
  show ?thesis by auto
qed

section \<open>The startup sequence\<close>

text \<open>
  The environment setup changes neither the platform, nor the required variables, nor
  the text of \<open>PORT\<close>, so both \<open>main\<close> functions can be read on the environment they
  start from.
\<close>

lemma universal_main_unfold:
  "universal_main env0 =
     (let (ok, msgs) = check_requirements env0
      in if \<not> ok then
           \<lparr>outcome = Exit 1, printed = msgs @ [StartupFailed],
            environ = setup_environment env0\<rparr>
         else
           (let port_str = getenv_default env0 ''PORT'' ''8000'';
                port_str = (if port_str = ''$PORT'' then ''8000'' else port_str)
            in case py_int port_str of
                 Inr port \<Rightarrow>
                   \<lparr>outcome = Launch port, printed = msgs, environ = setup_environment env0\<rparr>
               | Inl ValueError \<Rightarrow>
                   \<lparr>outcome = Launch 8000, printed = msgs @ [InvalidPort port_str],
                    environ = setup_environment env0\<rparr>))"
  unfolding universal_main_def Let_def check_requirements_setup setup_environment_port
  by (rule refl)

lemma render_main_unfold:
  "render_main env0 =
     (let (ok, msgs) = check_render_requirements env0
      in if \<not> ok then
           \<lparr>outcome = Exit 1, printed = msgs @ [StartupFailed],
            environ = setup_render_environment env0\<rparr>
         else
           (let port_str = getenv_default env0 ''PORT'' ''8000''
            in case py_int port_str of
                 Inr port \<Rightarrow>
                   \<lparr>outcome = Launch port, printed = msgs,
                    environ = setup_render_environment env0\<rparr>
               | Inl ValueError \<Rightarrow>
                   \<lparr>outcome = Launch 8000, printed = msgs @ [InvalidPort port_str],
                    environ = setup_render_environment env0\<rparr>))"
  unfolding render_main_def Let_def check_render_requirements_setup setup_render_port
  by (rule refl)

lemma check_requirements_cases:
  "check_requirements env =
     (let missing = filter (\<lambda>var. \<not> truthy (getenv env var))
                      (if detect_platform env = ''local'' then [''JWT_SECRET'']
                       else [''DATABASE_URL'', ''JWT_SECRET''])
      in if missing \<noteq> [] then
           (False,
            [MissingVars missing,
             PleaseSet (if detect_platform env = ''railway'' then ''Railway dashboard''
                        else if detect_platform env = ''render'' then ''Render dashboard''
                        else ''.env file'')])
         else (True, []))"
  by (simp add: check_requirements_def Let_def)

lemma launch_or_fallback:
  "\<exists>port. (case py_int p of
             Inr port \<Rightarrow> \<lparr>outcome = Launch port, printed = ms, environ = e\<rparr>
           | Inl ValueError \<Rightarrow> \<lparr>outcome = Launch 8000, printed = ms', environ = e\<rparr>) =
          \<lparr>outcome = Launch port,
           printed = (case py_int p of Inr _ \<Rightarrow> ms | Inl _ \<Rightarrow> ms'), environ = e\<rparr>"
proof (cases "py_int p")
  case (Inl err)
  then show ?thesis by (cases err) simp
next
  case (Inr n)
  then show ?thesis by simp
qed

lemma universal_main_passes:
  assumes "fst (check_requirements env)"
  shows "\<exists>port. outcome (universal_main env) = Launch port"
proof -
  from assms have c: "check_requirements env = (True, [])"
    by (simp add: check_requirements_cases Let_def split: if_splits)
  obtain port where
    "(case py_int (if getenv_default env ''PORT'' ''8000'' = ''$PORT'' then ''8000''
                   else getenv_default env ''PORT'' ''8000'') of
        Inr port \<Rightarrow> \<lparr>outcome = Launch port, printed = [],
                      environ = setup_environment env\<rparr>
      | Inl ValueError \<Rightarrow>
          \<lparr>outcome = Launch 8000,
           printed = [] @ [InvalidPort (if getenv_default env ''PORT'' ''8000'' = ''$PORT''
                                        then ''8000'' else getenv_default env ''PORT'' ''8000'')],
           environ = setup_environment env\<rparr>) =
     \<lparr>outcome = Launch port,
      printed = (case py_int (if getenv_default env ''PORT'' ''8000'' = ''$PORT'' then ''8000''
                   else getenv_default env ''PORT'' ''8000'') of
                   Inr _ \<Rightarrow> []
                 | Inl _ \<Rightarrow> [] @ [InvalidPort (if getenv_default env ''PORT'' ''8000'' = ''$PORT''
                                        then ''8000'' else getenv_default env ''PORT'' ''8000'')]),
      environ = setup_environment env\<rparr>"
    using launch_or_fallback by blast
  then have "outcome (universal_main env) = Launch port"
    by (simp add: universal_main_unfold c Let_def)
  then show ?thesis ..
qed

lemma render_main_passes:
  assumes "fst (check_render_requirements env)"
  shows "\<exists>port. outcome (render_main env) = Launch port"
proof -
  from assms have c: "check_render_requirements env = (True, [])"
    by (simp add: check_render_requirements_def Let_def split: if_splits)
  obtain port where
    "(case py_int (getenv_default env ''PORT'' ''8000'') of
        Inr port \<Rightarrow> \<lparr>outcome = Launch port, printed = [],
                      environ = setup_render_environment env\<rparr>
      | Inl ValueError \<Rightarrow>
          \<lparr>outcome = Launch 8000,
           printed = [] @ [InvalidPort (getenv_default env ''PORT'' ''8000'')],
           environ = setup_render_environment env\<rparr>) =
     \<lparr>outcome = Launch port,
      printed = (case py_int (getenv_default env ''PORT'' ''8000'') of
                   Inr _ \<Rightarrow> []
                 | Inl _ \<Rightarrow> [] @ [InvalidPort (getenv_default env ''PORT'' ''8000'')]),
      environ = setup_render_environment env\<rparr>"
    using launch_or_fallback by blast
  then have "outcome (render_main env) = Launch port"
    by (simp add: render_main_unfold c Let_def)
  then show ?thesis ..
qed

lemma universal_main_fails:
  assumes "\<not> fst (check_requirements env)"
  shows "outcome (universal_main env) = Exit 1"
    and "printed (universal_main env) = snd (check_requirements env) @ [StartupFailed]"
proof -
  obtain ok msgs where c: "check_requirements env = (ok, msgs)"
    by (cases "check_requirements env")
  with assms have "\<not> ok" by simp
  with c show "outcome (universal_main env) = Exit 1"
    and "printed (universal_main env) = snd (check_requirements env) @ [StartupFailed]"
    by (simp_all add: universal_main_unfold)
qed

lemma render_main_fails:
  assumes "\<not> fst (check_render_requirements env)"
  shows "outcome (render_main env) = Exit 1"
    and "printed (render_main env) = snd (check_render_requirements env) @ [StartupFailed]"
proof -
  obtain ok msgs where c: "check_render_requirements env = (ok, msgs)"
    by (cases "check_render_requirements env")
  with assms have "\<not> ok" by simp
  with c show "outcome (render_main env) = Exit 1"
    and "printed (render_main env) = snd (check_render_requirements env) @ [StartupFailed]"
    by (simp_all add: render_main_unfold)
qed

text \<open>
  C2: in universal\_start.py the required variables are \<open>JWT_SECRET\<close> alone when the
  detected platform is local and \<open>DATABASE_URL\<close> and \<open>JWT_SECRET\<close> otherwise; a
  variable is missing when it is unset or empty. If one is missing the run prints the
  missing names and ends in \<open>sys.exit(1)\<close>; if none is missing it reaches the server
  launch. With \<open>JWT_SECRET\<close> as the only variable of the environment the launch is
  reached, on port 8000. render\_start.py is the entry point of the Render platform: it
  detects nothing and always requires both variables, with the same exit.
\<close>

theorem required_variables_validation:
  "(let required = (if detect_platform env = ''local'' then [''JWT_SECRET'']
                    else [''DATABASE_URL'', ''JWT_SECRET'']);
        missing = filter (\<lambda>var. \<not> truthy (getenv env var)) required;
        r = universal_main env
    in (missing \<noteq> [] \<longrightarrow>
          outcome r = Exit 1 \<and>
          (\<exists>w. printed r = [MissingVars missing, PleaseSet w, StartupFailed])) \<and>
       (missing = [] \<longrightarrow> (\<exists>port. outcome r = Launch port))) \<and>
   (let missing = filter (\<lambda>var. \<not> truthy (getenv env var)) [''DATABASE_URL'', ''JWT_SECRET''];
        r = render_main env
    in (missing \<noteq> [] \<longrightarrow>
          outcome r = Exit 1 \<and>
          (\<exists>w. printed r = [MissingVars missing, PleaseSet w, StartupFailed])) \<and>
       (missing = [] \<longrightarrow> (\<exists>port. outcome r = Launch port))) \<and>
   (secret \<noteq> [] \<longrightarrow>
      detect_platform (Map.empty(''JWT_SECRET'' \<mapsto> secret)) = ''local'' \<and>
      outcome (universal_main (Map.empty(''JWT_SECRET'' \<mapsto> secret))) = Launch 8000)"
proof -
  have u: "fst (check_requirements env) =
           (filter (\<lambda>var. \<not> truthy (getenv env var))
              (if detect_platform env = ''local'' then [''JWT_SECRET'']
               else [''DATABASE_URL'', ''JWT_SECRET'']) = [])"
    by (simp add: check_requirements_cases Let_def)
  have um: "\<not> fst (check_requirements env) \<Longrightarrow>
            \<exists>w. snd (check_requirements env) =
              [MissingVars (filter (\<lambda>var. \<not> truthy (getenv env var))
                 (if detect_platform env = ''local'' then [''JWT_SECRET'']
                  else [''DATABASE_URL'', ''JWT_SECRET''])), PleaseSet w]"
    by (simp add: check_requirements_cases Let_def split: if_splits)
  have r: "fst (check_render_requirements env) =
           (filter (\<lambda>var. \<not> truthy (getenv env var)) [''DATABASE_URL'', ''JWT_SECRET''] = [])"
    by (simp add: check_render_requirements_def Let_def)
  have rm: "\<not> fst (check_render_requirements env) \<Longrightarrow>
            \<exists>w. snd (check_render_requirements env) =
              [MissingVars (filter (\<lambda>var. \<not> truthy (getenv env var))
                 [''DATABASE_URL'', ''JWT_SECRET'']), PleaseSet w]"
    by (simp add: check_render_requirements_def Let_def split: if_splits)
  have a: "let required = (if detect_platform env = ''local'' then [''JWT_SECRET'']
                    else [''DATABASE_URL'', ''JWT_SECRET'']);
        missing = filter (\<lambda>var. \<not> truthy (getenv env var)) required;
        r = universal_main env
    in (missing \<noteq> [] \<longrightarrow>
          outcome r = Exit 1 \<and>
          (\<exists>w. printed r = [MissingVars missing, PleaseSet w, StartupFailed])) \<and>
       (missing = [] \<longrightarrow> (\<exists>port. outcome r = Launch port))"
    unfolding Let_def
    using universal_main_passes [of env] universal_main_fails [of env] u um
    by (cases "fst (check_requirements env)") auto
  have b: "let missing = filter (\<lambda>var. \<not> truthy (getenv env var)) [''DATABASE_URL'', ''JWT_SECRET''];
        r = render_main env
    in (missing \<noteq> [] \<longrightarrow>
          outcome r = Exit 1 \<and>
          (\<exists>w. printed r = [MissingVars missing, PleaseSet w, StartupFailed])) \<and>
       (missing = [] \<longrightarrow> (\<exists>port. outcome r = Launch port))"
    unfolding Let_def
    using render_main_passes [of env] render_main_fails [of env] r rm
    by (cases "fst (check_render_requirements env)") auto
  have c: "secret \<noteq> [] \<longrightarrow>
      detect_platform (Map.empty(''JWT_SECRET'' \<mapsto> secret)) = ''local'' \<and>
      outcome (universal_main (Map.empty(''JWT_SECRET'' \<mapsto> secret))) = Launch 8000"
    by (simp add: universal_main_unfold check_requirements_cases detect_platform_def
        getenv_def getenv_default_def py_int_8000 Let_def)
  from a b c show ?thesis by blast
qed

theorem required_variables_validation_witness:
  "outcome (universal_main (Map.empty(''JWT_SECRET'' \<mapsto> ''s3cret''))) = Launch 8000 \<and>
   outcome (universal_main (Map.empty(''RENDER'' \<mapsto> ''true'', ''JWT_SECRET'' \<mapsto> ''s3cret'')))
     = Exit 1 \<and>
   outcome (render_main (Map.empty(''JWT_SECRET'' \<mapsto> ''s3cret''))) = Exit 1"
  using required_variables_validation [of "Map.empty(''JWT_SECRET'' \<mapsto> ''s3cret'')" "''s3cret''"]
        required_variables_validation
          [of "Map.empty(''RENDER'' \<mapsto> ''true'', ''JWT_SECRET'' \<mapsto> ''s3cret'')" "''s3cret''"]
  by (simp add: Let_def detect_platform_def getenv_def)

section \<open>Port resolution\<close>

lemma py_int_dollar_port: "py_int ''$PORT'' = Inl ValueError"
  by (simp add: py_int_def int_isspace_def digit_val_def)


lemma py_int_abc: "py_int ''abc'' = Inl ValueError"
  by (simp add: py_int_def int_isspace_def digit_val_def)

lemma universal_main_invalid_port:
  assumes "py_int s = Inl ValueError" and "s \<noteq> ''$PORT''"
    and "getenv env ''PORT'' = Some s" and "fst (check_requirements env)"
  shows "outcome (universal_main env) = Launch 8000"
    and "printed (universal_main env) = [InvalidPort s]"
proof -
  from assms(4) have c: "check_requirements env = (True, [])"
    by (simp add: check_requirements_cases Let_def split: if_splits)
  from assms(3) have p: "getenv_default env ''PORT'' ''8000'' = s"
    by (simp add: getenv_def getenv_default_def)
  from c p assms(1,2) show "outcome (universal_main env) = Launch 8000"
    and "printed (universal_main env) = [InvalidPort s]"
    by (simp_all add: universal_main_unfold)
qed

lemma universal_main_dollar_port:
  assumes "getenv env ''PORT'' = Some ''$PORT''" and "fst (check_requirements env)"
  shows "outcome (universal_main env) = Launch 8000"
    and "printed (universal_main env) = []"
proof -
  from assms(2) have c: "check_requirements env = (True, [])"
    by (simp add: check_requirements_cases Let_def split: if_splits)
  from assms(1) have p: "getenv_default env ''PORT'' ''8000'' = ''$PORT''"
    by (simp add: getenv_def getenv_default_def)
  from c p show "outcome (universal_main env) = Launch 8000"
    and "printed (universal_main env) = []"
    by (simp_all add: universal_main_unfold py_int_8000)
qed

lemma render_main_invalid_port:
  assumes "py_int s = Inl ValueError"
    and "getenv env ''PORT'' = Some s" and "fst (check_render_requirements env)"
  shows "outcome (render_main env) = Launch 8000"
    and "printed (render_main env) = [InvalidPort s]"
proof -
  from assms(3) have c: "check_render_requirements env = (True, [])"
    by (simp add: check_render_requirements_def Let_def split: if_splits)
  from assms(2) have p: "getenv_default env ''PORT'' ''8000'' = s"
    by (simp add: getenv_def getenv_default_def)
  from c p assms(1) show "outcome (render_main env) = Launch 8000"
    and "printed (render_main env) = [InvalidPort s]"
    by (simp_all add: render_main_unfold)
qed

text \<open>
  C6: with \<open>PORT\<close> set to the literal \<open>$PORT\<close> both scripts reach the launch on port
  8000. universal\_start.py replaces the literal by \<open>8000\<close> before parsing and prints no
  warning. render\_start.py has no such replacement: there \<open>int\<close> raises
  \<open>ValueError\<close> on \<open>$PORT\<close> and the handler prints the invalid-port warning before
  it falls back to 8000.
\<close>

theorem dollar_port_in_both_scripts:
  "py_int ''$PORT'' = Inl ValueError \<and>
   outcome (universal_main (Map.empty(''DATABASE_URL'' \<mapsto> ''postgresql://db/app'',
      ''JWT_SECRET'' \<mapsto> ''s3cret'', ''RENDER'' \<mapsto> ''true'', ''PORT'' \<mapsto> ''$PORT'')))
     = Launch 8000 \<and>
   printed (universal_main (Map.empty(''DATABASE_URL'' \<mapsto> ''postgresql://db/app'',
      ''JWT_SECRET'' \<mapsto> ''s3cret'', ''RENDER'' \<mapsto> ''true'', ''PORT'' \<mapsto> ''$PORT'')))
     = [] \<and>
   outcome (render_main (Map.empty(''DATABASE_URL'' \<mapsto> ''postgresql://db/app'',
      ''JWT_SECRET'' \<mapsto> ''s3cret'', ''RENDER'' \<mapsto> ''true'', ''PORT'' \<mapsto> ''$PORT'')))
     = Launch 8000 \<and>
   printed (render_main (Map.empty(''DATABASE_URL'' \<mapsto> ''postgresql://db/app'',
      ''JWT_SECRET'' \<mapsto> ''s3cret'', ''RENDER'' \<mapsto> ''true'', ''PORT'' \<mapsto> ''$PORT'')))
     = [InvalidPort ''$PORT'']"
proof -
  let ?env = "Map.empty(''DATABASE_URL'' \<mapsto> ''postgresql://db/app'',
      ''JWT_SECRET'' \<mapsto> ''s3cret'', ''RENDER'' \<mapsto> ''true'', ''PORT'' \<mapsto> ''$PORT'')"
  have p: "getenv ?env ''PORT'' = Some ''$PORT''"
    by (simp add: getenv_def)
  have u: "fst (check_requirements ?env)"
    by (simp add: check_requirements_cases detect_platform_def getenv_def)
  have r: "fst (check_render_requirements ?env)"
    by (simp add: check_render_requirements_def getenv_def)
  from universal_main_dollar_port [OF p u]
       render_main_invalid_port [OF py_int_dollar_port p r] py_int_dollar_port
  show ?thesis by simp
qed

text \<open>
  C1, as the code has it: for every \<open>PORT\<close> text that \<open>int\<close> rejects, building the
  settings object fails: the port override of \<open>Settings.__init__\<close> raises \<open>ValueError\<close>
  whenever the text is not empty, and a text that never reaches the override (the
  empty one among them) has already been refused by the base class with a validation
  error; either way the module's \<open>settings\<close> is not built. The startup scripts, once
  validation has passed, print the invalid-port warning, fall back to 8000 and reach the
  launch for every such text other than the literal \<open>$PORT\<close>; for that literal
  universal\_start.py substitutes 8000 and prints no warning.
\<close>

theorem port_parse_policies:
  assumes "py_int s = Inl ValueError" and "getenv env ''PORT'' = Some s"
  shows "(s \<noteq> ''$PORT'' \<and> fst (check_requirements env) \<longrightarrow>
            outcome (universal_main env) = Launch 8000 \<and>
            printed (universal_main env) = [InvalidPort s]) \<and>
         (s \<noteq> ''$PORT'' \<and> fst (check_render_requirements env) \<longrightarrow>
            outcome (render_main env) = Launch 8000 \<and>
            printed (render_main env) = [InvalidPort s]) \<and>
         (s = ''$PORT'' \<and> fst (check_requirements env) \<longrightarrow>
            outcome (universal_main env) = Launch 8000 \<and> printed (universal_main env) = []) \<and>
         (s \<noteq> [] \<longrightarrow> Settings_init_body base env = Inl ValueError) \<and>
         (Settings_init pyd env = Inl ValidationError \<or>
          Settings_init pyd env = Inl (BodyError ValueError)) \<and>
         (settings pyd env = Inl ValidationError \<or>
          settings pyd env = Inl (BodyError ValueError))"
proof -
  have a: "s \<noteq> ''$PORT'' \<and> fst (check_requirements env) \<longrightarrow>
            outcome (universal_main env) = Launch 8000 \<and>
            printed (universal_main env) = [InvalidPort s]"
    using universal_main_invalid_port [OF assms(1) _ assms(2)] by blast
  have b: "s \<noteq> ''$PORT'' \<and> fst (check_render_requirements env) \<longrightarrow>
            outcome (render_main env) = Launch 8000 \<and>
            printed (render_main env) = [InvalidPort s]"
    using render_main_invalid_port [OF assms(1) assms(2)] by blast
  have d: "s = ''$PORT'' \<and> fst (check_requirements env) \<longrightarrow>
            outcome (universal_main env) = Launch 8000 \<and> printed (universal_main env) = []"
    using universal_main_dollar_port [of env] assms(2) by blast
  have c: "Settings_init_body b env = Inl ValueError" if "s \<noteq> []" for b
    using assms that by (simp add: Settings_init_body_raises_iff)
  have e: "Settings_init pyd env = Inl ValidationError \<or>
           Settings_init pyd env = Inl (BodyError ValueError)"
  proof (cases "BaseSettings_init pyd env")
    case (Inl err)
    then have "err = ValidationError"
      by (simp add: BaseSettings_init_def split: if_splits)
    with Inl show ?thesis
      by (simp add: Settings_init_def)
  next
    case (Inr b)
    from BaseSettings_init_port [OF Inr] assms(2) have "s \<noteq> []"
      by auto
    from c [OF this] Inr show ?thesis
      by (simp add: Settings_init_def)
  qed
  then have f: "settings pyd env = Inl ValidationError \<or>
                settings pyd env = Inl (BodyError ValueError)"
    by (auto simp: settings_def)
  from a b c d e f show ?thesis by blast
qed

theorem port_parse_policies_witness:
  "outcome (universal_main (Map.empty(''DATABASE_URL'' \<mapsto> ''postgresql://db/app'',
      ''JWT_SECRET'' \<mapsto> ''s3cret'', ''PORT'' \<mapsto> ''abc''))) = Launch 8000 \<and>
   printed (universal_main (Map.empty(''DATABASE_URL'' \<mapsto> ''postgresql://db/app'',
      ''JWT_SECRET'' \<mapsto> ''s3cret'', ''PORT'' \<mapsto> ''abc''))) = [InvalidPort ''abc''] \<and>
   outcome (render_main (Map.empty(''DATABASE_URL'' \<mapsto> ''postgresql://db/app'',
      ''JWT_SECRET'' \<mapsto> ''s3cret'', ''PORT'' \<mapsto> ''abc''))) = Launch 8000 \<and>
   Settings_init_body default_settings (Map.empty(''DATABASE_URL'' \<mapsto> ''postgresql://db/app'',
      ''JWT_SECRET'' \<mapsto> ''s3cret'', ''PORT'' \<mapsto> ''abc'')) = Inl ValueError \<and>
   (settings \<lparr>int_of_str = (\<lambda>v. None), bool_of_str = (\<lambda>v. None)\<rparr>
      (Map.empty(''DATABASE_URL'' \<mapsto> ''postgresql://db/app'',
         ''JWT_SECRET'' \<mapsto> ''s3cret'', ''PORT'' \<mapsto> ''abc'')) = Inl ValidationError \<or>
    settings \<lparr>int_of_str = (\<lambda>v. None), bool_of_str = (\<lambda>v. None)\<rparr>
      (Map.empty(''DATABASE_URL'' \<mapsto> ''postgresql://db/app'',
         ''JWT_SECRET'' \<mapsto> ''s3cret'', ''PORT'' \<mapsto> ''abc'')) = Inl (BodyError ValueError))"
proof -
  let ?env = "Map.empty(''DATABASE_URL'' \<mapsto> ''postgresql://db/app'',
      ''JWT_SECRET'' \<mapsto> ''s3cret'', ''PORT'' \<mapsto> ''abc'')"
  have p: "getenv ?env ''PORT'' = Some ''abc''"
    by (simp add: getenv_def)
  have u: "fst (check_requirements ?env)"
    by (simp add: check_requirements_cases detect_platform_def getenv_def)
  have r: "fst (check_render_requirements ?env)"
    by (simp add: check_render_requirements_def getenv_def)
  from port_parse_policies [OF py_int_abc p, of default_settings
         "\<lparr>int_of_str = (\<lambda>v. None), bool_of_str = (\<lambda>v. None)\<rparr>"] u r
  show ?thesis by simp
qed

text \<open>
  The claim as first stated fails at the literal \<open>$PORT\<close>, a text that \<open>int\<close>
  rejects: universal\_start.py reaches the launch on port 8000 and prints no warning.
\<close>

theorem port_parse_policies_counterexample:
  "py_int ''$PORT'' = Inl ValueError \<and>
   getenv (Map.empty(''JWT_SECRET'' \<mapsto> ''s3cret'', ''PORT'' \<mapsto> ''$PORT'')) ''PORT''
     = Some ''$PORT'' \<and>
   outcome (universal_main (Map.empty(''JWT_SECRET'' \<mapsto> ''s3cret'', ''PORT'' \<mapsto> ''$PORT'')))
     = Launch 8000 \<and>
   printed (universal_main (Map.empty(''JWT_SECRET'' \<mapsto> ''s3cret'', ''PORT'' \<mapsto> ''$PORT'')))
     = []"
proof -
  have p: "getenv (Map.empty(''JWT_SECRET'' \<mapsto> ''s3cret'', ''PORT'' \<mapsto> ''$PORT'')) ''PORT''
           = Some ''$PORT''"
    by (simp add: getenv_def)
  have u: "fst (check_requirements
             (Map.empty(''JWT_SECRET'' \<mapsto> ''s3cret'', ''PORT'' \<mapsto> ''$PORT'')))"
    by (simp add: check_requirements_cases detect_platform_def getenv_def)
  from universal_main_dollar_port [OF p u] p py_int_dollar_port
  show ?thesis by simp
qed

section \<open>Empty and absent values\<close>














section \<open>The list accessors\<close>

lemma strip_subset: "set (strip s) \<subseteq> set s"
proof
  fix x
  assume "x \<in> set (strip s)"
  then have "x \<in> set (dropWhile py_isspace (rev (dropWhile py_isspace s)))"
    by (simp add: strip_def)
  then have "x \<in> set (rev (dropWhile py_isspace s))"
    by (rule set_dropWhileD)
  then have "x \<in> set (dropWhile py_isspace s)"
    by simp
  then show "x \<in> set s"
    by (rule set_dropWhileD)
qed

lemma strip_ends:
  assumes "strip s \<noteq> []"
  shows "\<not> py_isspace (hd (strip s))" and "\<not> py_isspace (last (strip s))"
proof -
  define a where "a = dropWhile py_isspace s"
  define b where "b = dropWhile py_isspace (rev a)"
  have sb: "strip s = rev b"
    by (simp add: strip_def a_def b_def)
  with assms have b: "b \<noteq> []"
    by simp
  then have hb: "\<not> py_isspace (hd b)"
    unfolding b_def by (rule hd_dropWhile)
  have split: "rev a = takeWhile py_isspace (rev a) @ b"
    by (simp add: b_def)
  from b have "last (takeWhile py_isspace (rev a) @ b) = last b"
    by simp
  with split have lb: "last b = last (rev a)"
    by simp
  from split b have a: "a \<noteq> []"
    by auto
  then have "\<not> py_isspace (hd a)"
    unfolding a_def by (rule hd_dropWhile)
  with lb have "\<not> py_isspace (last b)"
    by (simp add: last_rev)
  with b sb show "\<not> py_isspace (hd (strip s))"
    by (simp add: hd_rev)
  from hb b sb show "\<not> py_isspace (last (strip s))"
    by (simp add: last_rev)
qed

lemma strip_fixed:
  assumes "t \<noteq> []" and "\<not> py_isspace (hd t)" and "\<not> py_isspace (last t)"
  shows "strip t = t"
proof -
  from assms(2) have "dropWhile py_isspace t = t"
    by (simp add: dropWhile_eq_self_iff)
  moreover from assms(1,3) have "dropWhile py_isspace (rev t) = rev t"
    by (simp add: dropWhile_eq_self_iff hd_rev)
  ultimately show ?thesis
    by (simp add: strip_def)
qed

lemma strip_idem: "strip (strip s) = strip s"
proof (cases "strip s = []")
  case True
  have "strip [] = []" by (simp add: strip_def)
  with True show ?thesis by simp
next
  case False
  then show ?thesis
    by (intro strip_fixed strip_ends)
qed

lemma py_split_nonempty: "py_split c s \<noteq> []"
  by (induction s) (auto split: list.splits)

lemma py_split_no_sep: "w \<in> set (py_split c s) \<Longrightarrow> c \<notin> set w"
  by (induction s arbitrary: w) (auto split: if_splits list.splits)

lemma py_split_single: "c \<notin> set t \<Longrightarrow> py_split c t = [t]"
  by (induction t) auto

lemma py_split_append: "c \<notin> set t \<Longrightarrow> py_split c (t @ c # rest) = t # py_split c rest"
  by (induction t) auto

lemma py_split_join:
  assumes "ts \<noteq> []" and "\<And>t. t \<in> set ts \<Longrightarrow> c \<notin> set t"
  shows "py_split c (py_join [c] ts) = ts"
  using assms
proof (induction ts)
  case Nil
  then show ?case by simp
next
  case (Cons t ts)
  show ?case
  proof (cases ts)
    case Nil
    with Cons.prems show ?thesis
      by (simp add: py_split_single)
  next
    case (Cons u us)
    with Cons.prems Cons.IH show ?thesis
      by (simp add: py_split_append)
  qed
qed

lemma split_trimmed_tokens:
  assumes "t \<in> set (split_trimmed S)"
  shows "t \<noteq> []" and "strip t = t" and "CHR '','' \<notin> set t"
proof -
  from assms obtain x where x: "x \<in> set (py_split (CHR '','') S)"
    and nx: "strip x \<noteq> []" and t: "t = strip x"
    by (auto simp: split_trimmed_def)
  from nx t show "t \<noteq> []" by simp
  from t show "strip t = t" by (simp add: strip_idem)
  from x have "CHR '','' \<notin> set x" by (rule py_split_no_sep)
  with strip_subset [of x] t show "CHR '','' \<notin> set t" by auto
qed

lemma split_trimmed_join: "split_trimmed (py_join '','' (split_trimmed S)) = split_trimmed S"
proof (cases "split_trimmed S = []")
  case True
  then show ?thesis
    by (simp add: split_trimmed_def strip_def)
next
  case False
  then have "py_split (CHR '','') (py_join '','' (split_trimmed S)) = split_trimmed S"
    by (intro py_split_join) (auto dest: split_trimmed_tokens(3))
  moreover have "filter (\<lambda>x. strip x \<noteq> []) (split_trimmed S) = split_trimmed S"
  proof (rule filter_True, rule ballI)
    fix x
    assume "x \<in> set (split_trimmed S)"
    from split_trimmed_tokens(1,2) [OF this] show "strip x \<noteq> []" by simp
  qed
  moreover have "map strip (split_trimmed S) = split_trimmed S"
    by (rule map_idI) (rule split_trimmed_tokens(2))
  ultimately show ?thesis
    by (simp add: split_trimmed_def [of "py_join '','' (split_trimmed S)"])
qed

text \<open>
  C9: on a delimited string \<open>S\<close> the three accessors return the comma-separated
  entries of \<open>S\<close>, each trimmed, with the empty ones dropped: every entry of the result
  is non-empty, trimmed and free of commas. Joining the result with commas and reading
  it again through the same accessor gives the same list, so the derivation is
  idempotent.
\<close>

theorem list_derivation_idempotent:
  "allowed_origins_list (self\<lparr>ALLOWED_ORIGINS := Str S\<rparr>) =
     filter (\<lambda>t. t \<noteq> []) (map strip (py_split (CHR '','') S)) \<and>
   allowed_hosts_list (self\<lparr>ALLOWED_HOSTS := Str S\<rparr>) =
     filter (\<lambda>t. t \<noteq> []) (map strip (py_split (CHR '','') S)) \<and>
   allowed_file_types_list (self\<lparr>ALLOWED_FILE_TYPES := Str S\<rparr>) =
     filter (\<lambda>t. t \<noteq> []) (map strip (py_split (CHR '','') S)) \<and>
   (\<forall>t \<in> set (allowed_origins_list (self\<lparr>ALLOWED_ORIGINS := Str S\<rparr>)).
      t \<noteq> [] \<and> strip t = t \<and> CHR '','' \<notin> set t) \<and>
   allowed_origins_list
     (self\<lparr>ALLOWED_ORIGINS :=
        Str (py_join '','' (allowed_origins_list (self\<lparr>ALLOWED_ORIGINS := Str S\<rparr>)))\<rparr>) =
     allowed_origins_list (self\<lparr>ALLOWED_ORIGINS := Str S\<rparr>) \<and>
   allowed_hosts_list
     (self\<lparr>ALLOWED_HOSTS :=
        Str (py_join '','' (allowed_hosts_list (self\<lparr>ALLOWED_HOSTS := Str S\<rparr>)))\<rparr>) =
     allowed_hosts_list (self\<lparr>ALLOWED_HOSTS := Str S\<rparr>) \<and>
   allowed_file_types_list
     (self\<lparr>ALLOWED_FILE_TYPES :=
        Str (py_join '','' (allowed_file_types_list (self\<lparr>ALLOWED_FILE_TYPES := Str S\<rparr>)))\<rparr>) =
     allowed_file_types_list (self\<lparr>ALLOWED_FILE_TYPES := Str S\<rparr>)"
proof -
  have f: "split_trimmed S = filter (\<lambda>t. t \<noteq> []) (map strip (py_split (CHR '','') S))"
    by (simp add: split_trimmed_def filter_map comp_def)
  have o: "allowed_origins_list (self\<lparr>ALLOWED_ORIGINS := Str X\<rparr>) = split_trimmed X" for X
    by (simp add: allowed_origins_list_def)
  have h: "allowed_hosts_list (self\<lparr>ALLOWED_HOSTS := Str X\<rparr>) = split_trimmed X" for X
    by (simp add: allowed_hosts_list_def)
  have t: "allowed_file_types_list (self\<lparr>ALLOWED_FILE_TYPES := Str X\<rparr>) = split_trimmed X" for X
    by (simp add: allowed_file_types_list_def)
  have e: "\<forall>t \<in> set (split_trimmed S). t \<noteq> [] \<and> strip t = t \<and> CHR '','' \<notin> set t"
    using split_trimmed_tokens by blast
  note j = split_trimmed_join [of S]
  show ?thesis
    unfolding o h t
    by (intro conjI) (rule f, rule f, rule f, rule e, rule j, rule j, rule j)
qed

lemma split_trimmed_example: "split_trimmed '' a, b ,, c,'' = [''a'', ''b'', ''c'']"
  by (simp add: split_trimmed_def strip_def py_isspace_def)

theorem list_derivation_idempotent_witness:
  "''b'' \<in> set (allowed_origins_list (default_settings\<lparr>ALLOWED_ORIGINS := Str '' a, b ,, c,''\<rparr>)) \<and>
   strip ''b'' = ''b'' \<and>
   allowed_origins_list
     (default_settings\<lparr>ALLOWED_ORIGINS :=
        Str (py_join '','' (allowed_origins_list
               (default_settings\<lparr>ALLOWED_ORIGINS := Str '' a, b ,, c,''\<rparr>)))\<rparr>) =
     [''a'', ''b'', ''c'']"
proof -
  have a: "allowed_origins_list (default_settings\<lparr>ALLOWED_ORIGINS := Str '' a, b ,, c,''\<rparr>) =
           [''a'', ''b'', ''c'']"
    by (simp add: allowed_origins_list_def split_trimmed_example)
  from list_derivation_idempotent [where self = default_settings and S = "'' a, b ,, c,''"]
  have "(\<forall>t \<in> set (allowed_origins_list (default_settings\<lparr>ALLOWED_ORIGINS := Str '' a, b ,, c,''\<rparr>)).
          t \<noteq> [] \<and> strip t = t \<and> CHR '','' \<notin> set t)"
    and "allowed_origins_list
     (default_settings\<lparr>ALLOWED_ORIGINS :=
        Str (py_join '','' (allowed_origins_list
               (default_settings\<lparr>ALLOWED_ORIGINS := Str '' a, b ,, c,''\<rparr>)))\<rparr>) =
     allowed_origins_list (default_settings\<lparr>ALLOWED_ORIGINS := Str '' a, b ,, c,''\<rparr>)"
    by blast+
  with a show ?thesis by simp
qed

end
